theory Spec2Isabelle
  imports Complex_Main
begin

section \<open>Values, errors and the libraries the geometry code calls\<close>

text \<open>
  The module \<^verbatim>\<open>emepy/geometries.py\<close> computes with Python and numpy floats. They are
  modelled as real numbers: rounding is outside the model. A float that numpy leaves
  as \<^verbatim>\<open>nan\<close> or \<^verbatim>\<open>inf\<close> (a division by zero gives a warning there, not an
  exception) is written \<open>None\<close> at the place where it arises, and so is Python's
  \<^verbatim>\<open>None\<close> where the source stores an unset index in an array.
\<close>

type_synonym pyfloat = "real option"

datatype error = TypeError | ValueError | OverflowError

definition neg :: "pyfloat \<Rightarrow> pyfloat" where
  "neg v = map_option uminus v"

text \<open>
  \<^verbatim>\<open>np.linspace(start, stop, num)\<close>: \<open>num\<close> evenly spaced samples, both ends
  included; a negative \<open>num\<close> raises ValueError. With one sample the step is unused
  and the sample is \<open>start\<close>.
\<close>

definition linspace :: "real \<Rightarrow> real \<Rightarrow> int \<Rightarrow> error + real list" where
  "linspace start stop num =
     (if num < 0 then Inl ValueError
      else Inr (map (\<lambda>i. if 1 < num
                           then start + real i * ((stop - start) / real_of_int (num - 1))
                           else start + real i * (stop - start))
                    [0..<nat num]))"

text \<open>
  The shapes handed to shapely: \<^verbatim>\<open>Polygon(vertices)\<close> and
  \<^verbatim>\<open>Point(x, z).buffer(r)\<close>. The two shapely operations the rasterizer calls,
  \<^verbatim>\<open>a.intersects(b)\<close> and \<^verbatim>\<open>a.intersection(b).area\<close>, belong to that library and
  are a parameter of the model.
\<close>

datatype shape =
    Polygon "(pyfloat \<times> pyfloat) list"
  | PointBuffer real real real

record shapely =
  intersects :: "shape \<Rightarrow> shape \<Rightarrow> bool"
  intersection_area :: "shape \<Rightarrow> shape \<Rightarrow> real"

section \<open>EMpyGeometryParameters\<close>

record EMpyGeometryParameters =
  wavelength :: real
  cladding_width :: real
  cladding_thickness :: real
  core_index :: "real option"
  cladding_index :: "real option"
  params_x :: "real list option"
  params_y :: "real list option"
  mesh :: int
  accuracy :: real
  boundary :: string
  PML :: bool

text \<open>
  The constructor stores its named arguments. Its loop over the extra keyword
  arguments calls \<^verbatim>\<open>setattr(key, val)\<close> with two arguments, which raises TypeError as
  soon as there is one.
\<close>

definition EMpyGeometryParameters_init ::
  "EMpyGeometryParameters \<Rightarrow> (string \<times> 'v) list \<Rightarrow> error + EMpyGeometryParameters" where
  "EMpyGeometryParameters_init named kwargs =
     (if kwargs = [] then Inr named else Inl TypeError)"

text \<open>\<^verbatim>\<open>EMpyGeometryParameters()\<close>: every argument at its default.\<close>

definition default_params :: EMpyGeometryParameters where
  "default_params =
     \<lparr>wavelength = 155 / 100000000, cladding_width = 25 / 10000000,
      cladding_thickness = 25 / 10000000, core_index = None, cladding_index = None,
      params_x = None, params_y = None, mesh = 128, accuracy = 1 / 100000000,
      boundary = ''0000'', PML = False\<rparr>"

text \<open>
  The arguments of the mode-solver constructor \<^verbatim>\<open>MSEMpy(...)\<close>, as the two factory
  methods pass them. \<open>arg_n = None\<close> stands for the keyword \<open>n\<close> left out.
\<close>

record solver_args =
  arg_wavelength :: real
  arg_width :: "real option"
  arg_thickness :: "real option"
  arg_num_modes :: "int option"
  arg_cladding_width :: real
  arg_cladding_thickness :: real
  arg_core_index :: "real option"
  arg_cladding_index :: "real option"
  arg_x :: "real list option"
  arg_y :: "real list option"
  arg_mesh :: int
  arg_accuracy :: real
  arg_boundary :: string
  arg_n :: "pyfloat list option"
  arg_PML :: bool

text \<open>
  A solver handle is opaque to this module: it is identified by the arguments it was
  made from. The constructor itself lives in \<^verbatim>\<open>emepy.fd\<close>, outside the module, and is
  a parameter \<open>ctor\<close> of the factories: it returns a handle or raises.
\<close>

datatype ModeSolver = MSEMpy solver_args

definition get_solver_rect ::
  "(solver_args \<Rightarrow> error + ModeSolver) \<Rightarrow> EMpyGeometryParameters \<Rightarrow>
     real \<Rightarrow> real \<Rightarrow> int \<Rightarrow> error + ModeSolver" where
  "get_solver_rect ctor self width thickness num_modes =
     ctor \<lparr>arg_wavelength = wavelength self, arg_width = Some width,
           arg_thickness = Some thickness, arg_num_modes = Some num_modes,
           arg_cladding_width = cladding_width self,
           arg_cladding_thickness = cladding_thickness self,
           arg_core_index = core_index self, arg_cladding_index = cladding_index self,
           arg_x = params_x self, arg_y = params_y self, arg_mesh = mesh self,
           arg_accuracy = accuracy self, arg_boundary = boundary self, arg_n = None,
           arg_PML = PML self\<rparr>"

definition get_solver_index ::
  "(solver_args \<Rightarrow> error + ModeSolver) \<Rightarrow> EMpyGeometryParameters \<Rightarrow>
     real option \<Rightarrow> int option \<Rightarrow> pyfloat list option \<Rightarrow> error + ModeSolver" where
  "get_solver_index ctor self thickness num_modes n =
     ctor \<lparr>arg_wavelength = wavelength self, arg_width = None,
           arg_thickness = thickness, arg_num_modes = num_modes,
           arg_cladding_width = cladding_width self,
           arg_cladding_thickness = cladding_thickness self,
           arg_core_index = core_index self, arg_cladding_index = cladding_index self,
           arg_x = params_x self, arg_y = params_y self, arg_mesh = mesh self,
           arg_accuracy = accuracy self, arg_boundary = boundary self, arg_n = n,
           arg_PML = PML self\<rparr>"

text \<open>
  Modelled from the spec: the constructor \<^verbatim>\<open>MSEMpy\<close> of \<^verbatim>\<open>emepy.fd\<close>, which is not
  among the sources. The specification describes mode-solver construction as handle
  allocation only, returning an opaque handle for the arguments it is given.
\<close>

definition MSEMpy_alloc :: "solver_args \<Rightarrow> error + ModeSolver" where
  "MSEMpy_alloc a = Inr (MSEMpy a)"

text \<open>
  Modelled from the spec: \<^verbatim>\<open>Layer\<close> of \<^verbatim>\<open>emepy.models\<close>, which is not among the
  sources: the tuple (mode solver handle, number of modes, wavelength, length).
\<close>

record Layer =
  mode_solver :: ModeSolver
  num_modes :: int
  layer_wavelength :: real
  layer_length :: real

section \<open>DynamicRect2D\<close>

text \<open>
  The attributes of a \<^verbatim>\<open>DynamicRect2D\<close> object. \<open>length_z\<close> is \<^verbatim>\<open>self.length\<close>.
  The class never calls the constructor of \<^verbatim>\<open>Geometry\<close> and never assigns
  \<^verbatim>\<open>self.layers\<close>: \<open>layers = None\<close> says that the attribute does not exist.
\<close>

record DynamicRect2D =
  params :: EMpyGeometryParameters
  symmetry :: bool
  subpixel :: bool
  width :: real
  length_z :: real
  grid_x :: "real list"
  grid_z :: "real list"
  static_vertices_left :: "(pyfloat \<times> pyfloat) list"
  static_vertices_right :: "(pyfloat \<times> pyfloat) list"
  design :: "pyfloat list"
  layers :: "Layer list option"

definition get_design :: "DynamicRect2D \<Rightarrow> pyfloat list" where
  "get_design self = design self"

subsection \<open>Vertex assembly\<close>

text \<open>The slice \<^verbatim>\<open>xs[::2]\<close>.\<close>

fun every_other :: "'a list \<Rightarrow> 'a list" where
  "every_other [] = []"
| "every_other [a] = [a]"
| "every_other (a # b # rest) = a # every_other rest"

text \<open>\<^verbatim>\<open>zip(t[:-1:2], t[1::2])\<close>: the coordinates of a flat design, in pairs.\<close>

definition design_pairs :: "'a list \<Rightarrow> ('a \<times> 'a) list" where
  "design_pairs t = zip (every_other (butlast t)) (every_other (drop 1 t))"

text \<open>The list \<^verbatim>\<open>vertices\<close> that \<^verbatim>\<open>get_n\<close> assembles (lines 188 to 208).\<close>

definition get_n_vertices :: "DynamicRect2D \<Rightarrow> (pyfloat \<times> pyfloat) list" where
  "get_n_vertices self =
     (let top = (if symmetry self then design self
                 else take (length (design self) div 2) (design self));
          bottom = (if symmetry self then design self
                    else drop (length (design self) div 2) (design self))
      in static_vertices_left self @ design_pairs top @ static_vertices_right self @
         (if symmetry self
          then map (\<lambda>(x, z). (neg x, z)) (rev (design_pairs bottom))
          else design_pairs bottom))"

text \<open>
  The shape that is rasterized (line 212). The line that would build it from the
  vertices is commented out in the source.
\<close>

definition get_n_polygon :: "DynamicRect2D \<Rightarrow> shape" where
  "get_n_polygon self = PointBuffer 0 (length_z self / 2) (width self / 2)"

subsection \<open>Rasterization\<close>

type_synonym index_map = "pyfloat list list"

definition total_area :: "real \<times> real \<Rightarrow> real \<times> real \<Rightarrow> real" where
  "total_area xp zp = (snd xp - fst xp) * (snd zp - fst zp)"

definition pixel_poly :: "real \<times> real \<Rightarrow> real \<times> real \<Rightarrow> shape" where
  "pixel_poly xp zp =
     Polygon [(Some (fst xp), Some (fst zp)), (Some (fst xp), Some (snd zp)),
              (Some (snd xp), Some (snd zp)), (Some (snd xp), Some (fst zp))]"

definition overlapping_area :: "shapely \<Rightarrow> shape \<Rightarrow> real \<times> real \<Rightarrow> real \<times> real \<Rightarrow> real" where
  "overlapping_area lib polygon xp zp =
     (if intersects lib (pixel_poly xp zp) polygon
      then intersection_area lib (pixel_poly xp zp) polygon else 0)"

text \<open>
  The value one pass of the inner loop stores. With subpixel smoothing the arithmetic
  on an unset index raises TypeError, and a cell of area zero gives a value that is not
  a number. Without it the index is stored as it is, and numpy stores \<^verbatim>\<open>None\<close> in a
  float array as \<^verbatim>\<open>nan\<close>.
\<close>

definition cell_index ::
  "shapely \<Rightarrow> DynamicRect2D \<Rightarrow> shape \<Rightarrow> real \<times> real \<Rightarrow> real \<times> real \<Rightarrow> error + pyfloat" where
  "cell_index lib self polygon xp zp =
     (if subpixel self then
        (case core_index (params self) of
           None \<Rightarrow> Inl TypeError
         | Some core \<Rightarrow>
             (case cladding_index (params self) of
                None \<Rightarrow> Inl TypeError
              | Some cladding \<Rightarrow>
                  Inr (if total_area xp zp = 0 then None
                       else Some (overlapping_area lib polygon xp zp / total_area xp zp * core
                                  + (1 - overlapping_area lib polygon xp zp / total_area xp zp)
                                    * cladding))))
      else if overlapping_area lib polygon xp zp \<noteq> 0 then Inr (core_index (params self))
      else Inr (cladding_index (params self)))"

text \<open>The assignment \<^verbatim>\<open>n[j, i] = v\<close>.\<close>

definition set_item :: "index_map \<Rightarrow> nat \<Rightarrow> nat \<Rightarrow> pyfloat \<Rightarrow> index_map" where
  "set_item n j i v = n[j := (n ! j)[i := v]]"

text \<open>The inner loop, over the enumerated longitudinal cells, for one transverse cell.\<close>

fun loop_z ::
  "shapely \<Rightarrow> DynamicRect2D \<Rightarrow> shape \<Rightarrow> nat \<Rightarrow> real \<times> real \<Rightarrow>
     (nat \<times> (real \<times> real)) list \<Rightarrow> index_map \<Rightarrow> error + index_map" where
  "loop_z lib self polygon i xp [] n = Inr n"
| "loop_z lib self polygon i xp ((j, zp) # rest) n =
     (case cell_index lib self polygon xp zp of
        Inl e \<Rightarrow> Inl e
      | Inr v \<Rightarrow> loop_z lib self polygon i xp rest (set_item n j i v))"

text \<open>The outer loop, over the enumerated transverse cells.\<close>

fun loop_x ::
  "shapely \<Rightarrow> DynamicRect2D \<Rightarrow> shape \<Rightarrow> (nat \<times> (real \<times> real)) list \<Rightarrow>
     (nat \<times> (real \<times> real)) list \<Rightarrow> index_map \<Rightarrow> error + index_map" where
  "loop_x lib self polygon [] zs n = Inr n"
| "loop_x lib self polygon ((i, xp) # rest) zs n =
     (case loop_z lib self polygon i xp zs n of
        Inl e \<Rightarrow> Inl e
      | Inr n' \<Rightarrow> loop_x lib self polygon rest zs n')"

text \<open>
  Lines 214 to 250 of \<^verbatim>\<open>get_n\<close>, for a given shape: the array of zeros with one row
  and one column less than the mesh grid, filled cell by cell.
\<close>

definition rasterize :: "shapely \<Rightarrow> shape \<Rightarrow> DynamicRect2D \<Rightarrow> error + index_map" where
  "rasterize lib polygon self =
     (let x = grid_x self; z = grid_z self;
          n = replicate (length z - 1) (replicate (length x - 1) (Some 0));
          xlower = butlast x; xupper = drop 1 x;
          zlower = butlast z; zupper = drop 1 z
      in loop_x lib self polygon (enumerate 0 (zip xlower xupper))
           (enumerate 0 (zip zlower zupper)) n)"

definition get_n :: "shapely \<Rightarrow> DynamicRect2D \<Rightarrow> error + index_map" where
  "get_n lib self =
     (let vertices = get_n_vertices self;
          polygon = get_n_polygon self
      in rasterize lib polygon self)"

definition set_layers :: "shapely \<Rightarrow> DynamicRect2D \<Rightarrow> DynamicRect2D \<times> (error + index_map)" where
  "set_layers lib self = (self, get_n lib self)"

text \<open>
  \<^verbatim>\<open>set_design\<close> assigns the attribute first, so the object keeps the new design also
  when the rasterization raises: the result is the object and what the call returns.
\<close>

definition set_design ::
  "shapely \<Rightarrow> pyfloat list \<Rightarrow> DynamicRect2D \<Rightarrow> DynamicRect2D \<times> (error + index_map)" where
  "set_design lib d self = set_layers lib (self\<lparr>design := d\<rparr>)"

text \<open>The object after a sequence of \<^verbatim>\<open>set_design\<close> calls.\<close>

definition set_designs :: "shapely \<Rightarrow> pyfloat list list \<Rightarrow> DynamicRect2D \<Rightarrow> DynamicRect2D" where
  "set_designs lib ds self = fold (\<lambda>d s. fst (set_design lib d s)) ds self"

text \<open>
  The constructor. The three calls of \<^verbatim>\<open>np.linspace\<close> raise ValueError on a negative
  count. The slice \<^verbatim>\<open>[1:-1]\<close> is \<open>butlast (drop 1 _)\<close>. The top vertices divide by
  \<open>length\<close>; with \<open>length = 0\<close> numpy computes \<^verbatim>\<open>0/0\<close> and the coordinate is not a
  number. The object is returned only if the closing \<^verbatim>\<open>set_design\<close> does not raise.
\<close>

definition flatten_pairs :: "('a \<times> 'a) list \<Rightarrow> 'a list" where
  "flatten_pairs ps = concat (map (\<lambda>(a, b). [a, b]) ps)"

definition DynamicRect2D_init ::
  "shapely \<Rightarrow> EMpyGeometryParameters \<Rightarrow> real \<Rightarrow> real \<Rightarrow> int \<Rightarrow> bool \<Rightarrow> bool \<Rightarrow> int \<Rightarrow>
     error + DynamicRect2D" where
  "DynamicRect2D_init lib p w l num_params symm subpx mesh_z =
     (case (case params_x p of
              Some x \<Rightarrow> Inr x
            | None \<Rightarrow> linspace (- cladding_width p / 2) (cladding_width p / 2) (mesh p)) of
        Inl e \<Rightarrow> Inl e
      | Inr gx \<Rightarrow>
     (case linspace 0 l mesh_z of
        Inl e \<Rightarrow> Inl e
      | Inr gz \<Rightarrow>
     (case linspace 0 l (num_params + 2) of
        Inl e \<Rightarrow> Inl e
      | Inr zs \<Rightarrow>
          (let z_top = butlast (drop 1 zs);
               x_top = map (\<lambda>(a, z). if l = 0 then None
                                      else Some (a + sin (z / l * pi) * w / 2))
                           (zip (replicate (nat num_params) (w / 2)) z_top);
               dynamic_vertices_top = zip x_top (map Some z_top);
               x_bottom = replicate (nat num_params) (Some (- w / 2));
               z_bottom = rev (butlast (drop 1 zs));
               dynamic_vertices_bottom = zip x_bottom (map Some z_bottom);
               d = flatten_pairs (if symm then dynamic_vertices_top
                                  else dynamic_vertices_top @ dynamic_vertices_bottom);
               self = \<lparr>params = p, symmetry = symm, subpixel = subpx, width = w, length_z = l,
                       grid_x = gx, grid_z = gz,
                       static_vertices_left = [(Some (- w / 2), Some 0), (Some (w / 2), Some 0)],
                       static_vertices_right = [(Some (w / 2), Some l), (Some (- w / 2), Some l)],
                       design = [], layers = None\<rparr>
           in case set_design lib d self of
                (self', Inl e) \<Rightarrow> Inl e
              | (self', Inr n) \<Rightarrow> Inr self'))))"

text \<open>
  The rasterization raises exactly in this state, and then at the first cell it visits.
\<close>

definition type_error_state :: "DynamicRect2D \<Rightarrow> bool" where
  "type_error_state self =
     (subpixel self \<and> (core_index (params self) = None \<or> cladding_index (params self) = None))"

text \<open>The value of a cell when the loop body does not raise, and the map of all cells.\<close>

definition cell_value ::
  "shapely \<Rightarrow> DynamicRect2D \<Rightarrow> shape \<Rightarrow> real \<times> real \<Rightarrow> real \<times> real \<Rightarrow> pyfloat" where
  "cell_value lib self polygon xp zp =
     (case cell_index lib self polygon xp zp of Inl e \<Rightarrow> None | Inr v \<Rightarrow> v)"

definition raster_map :: "shapely \<Rightarrow> shape \<Rightarrow> DynamicRect2D \<Rightarrow> index_map" where
  "raster_map lib polygon self =
     map (\<lambda>zp. map (\<lambda>xp. cell_value lib self polygon xp zp)
                  (zip (butlast (grid_x self)) (drop 1 (grid_x self))))
         (zip (butlast (grid_z self)) (drop 1 (grid_z self)))"


section \<open>WaveguideChannels\<close>

text \<open>
  \<^verbatim>\<open>np.where(cond, v, ys)\<close> for a one-dimensional condition, a scalar and a
  one-dimensional array: numpy broadcasts an array of length one against the other and
  raises ValueError when the two lengths differ otherwise.
\<close>

definition np_where :: "bool list \<Rightarrow> 'a \<Rightarrow> 'a list \<Rightarrow> error + 'a list" where
  "np_where cond v ys =
     (if length cond = length ys then Inr (map (\<lambda>(c, y). if c then v else y) (zip cond ys))
      else if length ys = 1 then Inr (map (\<lambda>c. if c then v else ys ! 0) cond)
      else if length cond = 1 then Inr (map (\<lambda>y. if cond ! 0 then v else y) ys)
      else Inl ValueError)"

text \<open>
  The channel edges are computed in double precision, and a sample that lies on an
  edge is inside or outside the channel according to the rounding. The three
  operations on doubles are therefore a parameter of the model: every double is a real
  number, and \<open>fadd\<close>, \<open>fsub\<close> and \<open>fmul\<close> give the double that the operation
  returns. A result that overflows to infinity is outside the model. Python converts
  an int to a double without rounding up to \<open>2 ^ 53\<close>; beyond, \<open>big_int\<close> gives the
  rounded double, or \<open>None\<close> where Python raises OverflowError.
\<close>

record float_arith =
  fadd :: "real \<Rightarrow> real \<Rightarrow> real"
  fsub :: "real \<Rightarrow> real \<Rightarrow> real"
  fmul :: "real \<Rightarrow> real \<Rightarrow> real"
  big_int :: "int \<Rightarrow> real option"

definition float_of_int :: "float_arith \<Rightarrow> int \<Rightarrow> error + real" where
  "float_of_int ar n =
     (if \<bar>n\<bar> \<le> 2 ^ 53 then Inr (real_of_int n)
      else (case big_int ar n of None \<Rightarrow> Inl OverflowError | Some r \<Rightarrow> Inr r))"

text \<open>
  The loop over \<^verbatim>\<open>range(num_channels)\<close> (lines 405 to 414). The comparison of an edge
  with \<^verbatim>\<open>params.x\<close> raises TypeError when \<^verbatim>\<open>params.x\<close> is \<^verbatim>\<open>None\<close>. An unset core
  index is stored in the array as it is.
\<close>

fun channels_loop ::
  "float_arith \<Rightarrow> EMpyGeometryParameters \<Rightarrow> real \<Rightarrow> real \<Rightarrow> real \<Rightarrow> int list \<Rightarrow> int list \<Rightarrow>
     pyfloat list \<Rightarrow> error + pyfloat list" where
  "channels_loop ar p w gap starting_center exclude_indices [] n_output = Inr n_output"
| "channels_loop ar p w gap starting_center exclude_indices (out # rest) n_output =
     (if out \<notin> set exclude_indices then
        (case float_of_int ar out of
           Inl e \<Rightarrow> Inl e
         | Inr out_f \<Rightarrow>
             (let center = fadd ar starting_center (fmul ar out_f (fadd ar gap w));
                  left_edge = fsub ar center (fmul ar 0.5 w);
                  right_edge = fadd ar center (fmul ar 0.5 w)
              in case params_x p of
                   None \<Rightarrow> Inl TypeError
                 | Some x \<Rightarrow>
                     (case np_where (map (\<lambda>xi. left_edge \<le> xi \<and> xi \<le> right_edge) x)
                             (core_index p) n_output of
                        Inl e \<Rightarrow> Inl e
                      | Inr n' \<Rightarrow>
                          channels_loop ar p w gap starting_center exclude_indices rest n')))
      else channels_loop ar p w gap starting_center exclude_indices rest n_output)"

text \<open>
  Lines 402 to 414: the transverse index profile \<^verbatim>\<open>n_output\<close>. \<^verbatim>\<open>np.ones(mesh)\<close>
  raises ValueError on a negative mesh. Its product with an unset cladding index
  raises TypeError at the first element, so an empty array stays empty; the product
  of one with a set cladding index is that index.
\<close>

definition channel_profile ::
  "float_arith \<Rightarrow> EMpyGeometryParameters \<Rightarrow> real \<Rightarrow> real \<Rightarrow> int \<Rightarrow> int list \<Rightarrow>
     error + pyfloat list" where
  "channel_profile ar p w gap num_channels exclude_indices =
     (case float_of_int ar (num_channels - 1) of
        Inl e \<Rightarrow> Inl e
      | Inr count_f \<Rightarrow>
          (let starting_center = fmul ar (fmul ar (- 0.5) count_f) (fadd ar gap w)
           in if mesh p < 0 then Inl ValueError
              else (case cladding_index p of
                      None \<Rightarrow>
                        if 0 < mesh p then Inl TypeError
                        else channels_loop ar p w gap starting_center exclude_indices
                               [0..num_channels - 1] []
                    | Some cladding \<Rightarrow>
                        channels_loop ar p w gap starting_center exclude_indices
                          [0..num_channels - 1] (replicate (nat (mesh p)) (Some cladding)))))"

text \<open>The constructor: the layers of the geometry, or the exception raised on the way.\<close>

definition WaveguideChannels_init ::
  "float_arith \<Rightarrow> (solver_args \<Rightarrow> error + ModeSolver) \<Rightarrow> EMpyGeometryParameters \<Rightarrow>
     real \<Rightarrow> real \<Rightarrow> real \<Rightarrow> int \<Rightarrow> real \<Rightarrow> int \<Rightarrow> int list \<Rightarrow> error + Layer list" where
  "WaveguideChannels_init ar ctor p w thickness len modes gap num_channels exclude_indices =
     (case channel_profile ar p w gap num_channels exclude_indices of
        Inl e \<Rightarrow> Inl e
      | Inr n_output \<Rightarrow>
          (case get_solver_index ctor p (Some thickness) (Some modes) (Some n_output) of
             Inl e \<Rightarrow> Inl e
           | Inr output_channel \<Rightarrow>
               Inr [\<lparr>mode_solver = output_channel, num_modes = modes,
                     layer_wavelength = wavelength p, layer_length = len\<rparr>]))"

text \<open>
  The two ends of the transverse interval of channel \<open>k\<close>, as lines 403 and 407 to 409
  compute them for a small number of channels: \<^verbatim>\<open>center - 0.5 * width\<close> and
  \<^verbatim>\<open>center + 0.5 * width\<close>. A sample is in the channel when it lies between the two,
  ends included, as line 411 tests.
\<close>

definition channel_edges :: "float_arith \<Rightarrow> int \<Rightarrow> real \<Rightarrow> real \<Rightarrow> int \<Rightarrow> real \<times> real" where
  "channel_edges ar num_channels gap w k =
     (let starting_center =
            fmul ar (fmul ar (- 0.5) (real_of_int (num_channels - 1))) (fadd ar gap w);
          center = fadd ar starting_center (fmul ar (real_of_int k) (fadd ar gap w))
      in (fsub ar center (fmul ar 0.5 w), fadd ar center (fmul ar 0.5 w)))"

definition in_channel :: "float_arith \<Rightarrow> int \<Rightarrow> real \<Rightarrow> real \<Rightarrow> int \<Rightarrow> real \<Rightarrow> bool" where
  "in_channel ar num_channels gap w k xi =
     (fst (channel_edges ar num_channels gap w k) \<le> xi \<and>
      xi \<le> snd (channel_edges ar num_channels gap w k))"

text \<open>
  The centre of channel \<open>k\<close> as a real number, and arithmetic that does not round: the
  doubles behave so on values such as small multiples of a half.
\<close>

definition channel_center :: "int \<Rightarrow> real \<Rightarrow> real \<Rightarrow> int \<Rightarrow> real" where
  "channel_center num_channels gap w k =
     - 0.5 * (real_of_int num_channels - 1) * (gap + w) + real_of_int k * (gap + w)"

definition exact_arith :: float_arith where
  "exact_arith =
     \<lparr>fadd = (\<lambda>a b. a + b), fsub = (\<lambda>a b. a - b), fmul = (\<lambda>a b. a * b),
      big_int = (\<lambda>n. Some (real_of_int n))\<rparr>"

section \<open>An overlap routine to run the model on\<close>

text \<open>
  To evaluate the model on concrete objects the two shapely operations need a value.
  \<open>box_shapely\<close> takes every shape for its bounding box: two shapes intersect when
  their boxes touch, and the area is that of the boxes' common rectangle. A polygon
  with no vertex, or with a coordinate that is not a number, has no box.
\<close>

fun box :: "shape \<Rightarrow> (real \<times> real \<times> real \<times> real) option" where
  "box (PointBuffer cx cz r) = Some (cx - r, cx + r, cz - r, cz + r)"
| "box (Polygon vs) =
     (case (those (map fst vs), those (map snd vs)) of
        (Some (a # as), Some (b # bs)) \<Rightarrow>
          Some (fold min as a, fold max as a, fold min bs b, fold max bs b)
      | _ \<Rightarrow> None)"

definition box_shapely :: shapely where
  "box_shapely =
     \<lparr>intersects = (\<lambda>a b.
        case (box a, box b) of
          (Some (al, au, cl, cu), Some (bl, bu, dl, du)) \<Rightarrow>
            max al bl \<le> min au bu \<and> max cl dl \<le> min cu du
        | _ \<Rightarrow> False),
      intersection_area = (\<lambda>a b.
        case (box a, box b) of
          (Some (al, au, cl, cu), Some (bl, bu, dl, du)) \<Rightarrow>
            max 0 (min au bu - max al bl) * max 0 (min cu du - max cl dl)
        | _ \<Rightarrow> 0)\<rparr>"

text \<open>
  A small object: cladding four units wide on a mesh of three points, a shape two
  units wide and two long on three longitudinal points, one design vertex, symmetry
  and subpixel smoothing on. It is what the constructor returns for these arguments
  (lemma \<open>example_rect_init\<close>).
\<close>

definition example_params :: EMpyGeometryParameters where
  "example_params =
     default_params\<lparr>cladding_width := 4, core_index := Some (34 / 10),
                    cladding_index := Some (14 / 10), mesh := 3\<rparr>"

definition example_rect :: DynamicRect2D where
  "example_rect =
     \<lparr>params = example_params, symmetry = True, subpixel = True, width = 2, length_z = 2,
      grid_x = [- 2, 0, 2], grid_z = [0, 1, 2],
      static_vertices_left = [(Some (- 1), Some 0), (Some 1, Some 0)],
      static_vertices_right = [(Some 1, Some 2), (Some (- 1), Some 2)],
      design = [Some 2, Some 1], layers = None\<rparr>"

text \<open>
  Two objects agree on everything the rasterization reads: width, length, the two
  grids, the subpixel flag and the two material indices.
\<close>

definition same_raster_inputs :: "DynamicRect2D \<Rightarrow> DynamicRect2D \<Rightarrow> bool" where
  "same_raster_inputs a b =
     (width a = width b \<and> length_z a = length_z b \<and> grid_x a = grid_x b \<and>
      grid_z a = grid_z b \<and> subpixel a = subpixel b \<and>
      core_index (params a) = core_index (params b) \<and>
      cladding_index (params a) = cladding_index (params b))"





text \<open>
  Two parameter objects for three channels of width 1: five samples for channels that
  touch (gap 0), and three samples for channels half a unit apart.
\<close>

definition touching_params :: EMpyGeometryParameters where
  "touching_params =
     default_params\<lparr>core_index := Some (34 / 10), cladding_index := Some (14 / 10),
                    params_x := Some [- 1, - 1 / 2, 0, 1 / 2, 1], mesh := 5\<rparr>"

definition spaced_params :: EMpyGeometryParameters where
  "spaced_params =
     default_params\<lparr>core_index := Some (34 / 10), cladding_index := Some (14 / 10),
                    params_x := Some [- 3 / 2, 0, 3 / 2], mesh := 3\<rparr>"

section \<open>Properties of the model\<close>

lemma set_item_length: "length (set_item n j i v) = length n"
  by (simp add: set_item_def)

subsection \<open>The rasterization loops\<close>

lemma cell_index_ok:
  "\<not> type_error_state self \<Longrightarrow>
     cell_index lib self polygon xp zp = Inr (cell_value lib self polygon xp zp)"
  by (auto simp: type_error_state_def cell_value_def cell_index_def split: option.splits)

lemma cell_index_raises:
  "type_error_state self \<Longrightarrow> cell_index lib self polygon xp zp = Inl TypeError"
  by (auto simp: type_error_state_def cell_index_def split: option.splits)

lemma loop_z_fold:
  "\<not> type_error_state self \<Longrightarrow>
     loop_z lib self polygon i xp zs n =
       Inr (fold (\<lambda>(j, zp) m. set_item m j i (cell_value lib self polygon xp zp)) zs n)"
  by (induction zs arbitrary: n) (auto simp: cell_index_ok)

lemma loop_x_fold:
  "\<not> type_error_state self \<Longrightarrow>
     loop_x lib self polygon xs zs n =
       Inr (fold (\<lambda>(i, xp) m. fold (\<lambda>(j, zp) m'. set_item m' j i (cell_value lib self polygon xp zp)) zs m) xs n)"
  by (induction xs arbitrary: n) (auto simp: loop_z_fold)

lemma set_item_row_length: "length (set_item n j i v ! j') = length (n ! j')"
  by (cases "j < length n"; cases "j' = j") (auto simp: set_item_def list_update_beyond)

lemma set_item_nth:
  "j' < length n \<Longrightarrow> i' < length (n ! j') \<Longrightarrow>
     set_item n j i v ! j' ! i' = (if j' = j \<and> i' = i then v else n ! j' ! i')"
  by (cases "j' = j") (auto simp: set_item_def nth_list_update)

lemma fold_z_length:
  "length (fold (\<lambda>(j, zp) m. set_item m j i (g zp)) zs n) = length n"
  by (induction zs arbitrary: n) (auto simp: set_item_length)

lemma fold_z_row_length:
  "length (fold (\<lambda>(j, zp) m. set_item m j i (g zp)) zs n ! j') = length (n ! j')"
  by (induction zs arbitrary: n) (auto simp: set_item_row_length)

lemma fold_z_nth:
  "j' < length n \<Longrightarrow> i' < length (n ! j') \<Longrightarrow>
     fold (\<lambda>(j, zp) m. set_item m j i (g zp)) (enumerate k zs) n ! j' ! i' =
       (if i' = i \<and> k \<le> j' \<and> j' < k + length zs then g (zs ! (j' - k)) else n ! j' ! i')"
proof (induction zs arbitrary: k n)
  case Nil
  then show ?case by auto
next
  case (Cons z zs)
  have a: "j' < length (set_item n k i (g z))"
    using Cons.prems by (simp add: set_item_length)
  have b: "i' < length (set_item n k i (g z) ! j')"
    using Cons.prems by (simp add: set_item_row_length)
  show ?case
    using Cons.IH[OF a b, of "Suc k"] Cons.prems
    by (auto simp: set_item_nth nth_Cons' Suc_diff_le)
qed

lemma fold_x_length:
  "length (fold (\<lambda>(i, xp) m. fold (\<lambda>(j, zp) m'. set_item m' j i (f xp zp)) zs m) xs n) = length n"
  by (induction xs arbitrary: n) (auto simp: fold_z_length)

lemma fold_x_row_length:
  "length (fold (\<lambda>(i, xp) m. fold (\<lambda>(j, zp) m'. set_item m' j i (f xp zp)) zs m) xs n ! j')
     = length (n ! j')"
  by (induction xs arbitrary: n) (auto simp: fold_z_row_length)

lemma fold_x_nth:
  "j' < length n \<Longrightarrow> i' < length (n ! j') \<Longrightarrow>
     fold (\<lambda>(i, xp) m. fold (\<lambda>(j, zp) m'. set_item m' j i (f xp zp)) (enumerate 0 zs) m)
          (enumerate k xs) n ! j' ! i' =
       (if k \<le> i' \<and> i' < k + length xs \<and> j' < length zs then f (xs ! (i' - k)) (zs ! j')
        else n ! j' ! i')"
proof (induction xs arbitrary: k n)
  case Nil
  then show ?case by auto
next
  case (Cons x xs)
  let ?m = "fold (\<lambda>(j, zp) m'. set_item m' j k (f x zp)) (enumerate 0 zs) n"
  have a: "j' < length ?m"
    using Cons.prems by (simp add: fold_z_length)
  have b: "i' < length (?m ! j')"
    using Cons.prems by (simp add: fold_z_row_length)
  have c: "?m ! j' ! i' = (if i' = k \<and> j' < length zs then f x (zs ! j') else n ! j' ! i')"
    using fold_z_nth[OF Cons.prems, of k "f x" 0 zs] by simp
  show ?case
    using Cons.IH[OF a b, of "Suc k"] c
    by (auto simp: nth_Cons' Suc_diff_le)
qed

lemma rasterize_ok:
  assumes "\<not> type_error_state self"
  shows "rasterize lib polygon self = Inr (raster_map lib polygon self)"
proof -
  let ?xs = "zip (butlast (grid_x self)) (drop 1 (grid_x self))"
  let ?zs = "zip (butlast (grid_z self)) (drop 1 (grid_z self))"
  let ?n = "replicate (length (grid_z self) - 1) (replicate (length (grid_x self) - 1) (Some 0 :: pyfloat))"
  let ?r = "fold (\<lambda>(i, xp) m. fold (\<lambda>(j, zp) m'. set_item m' j i (cell_value lib self polygon xp zp))
                (enumerate 0 ?zs) m) (enumerate 0 ?xs) ?n"
  have lx: "length ?xs = length (grid_x self) - 1" by simp
  have lz: "length ?zs = length (grid_z self) - 1" by simp
  have r: "rasterize lib polygon self = Inr ?r"
    unfolding rasterize_def Let_def by (rule loop_x_fold[OF assms])
  have "?r = raster_map lib polygon self"
  proof (rule nth_equalityI)
    show "length ?r = length (raster_map lib polygon self)"
      by (simp add: fold_x_length raster_map_def)
  next
    fix j assume "j < length ?r"
    then have j: "j < length (grid_z self) - 1" by (simp add: fold_x_length)
    show "?r ! j = raster_map lib polygon self ! j"
    proof (rule nth_equalityI)
      show "length (?r ! j) = length (raster_map lib polygon self ! j)"
        using j by (simp add: fold_x_row_length raster_map_def)
    next
      fix i assume "i < length (?r ! j)"
      then have i: "i < length (grid_x self) - 1" using j by (simp add: fold_x_row_length)
      have "?r ! j ! i = cell_value lib self polygon (?xs ! i) (?zs ! j)"
        using fold_x_nth[of j ?n i "cell_value lib self polygon" ?zs 0 ?xs] i j
        by simp
      then show "?r ! j ! i = raster_map lib polygon self ! j ! i"
        using i j by (simp add: raster_map_def)
    qed
  qed
  with r show ?thesis by simp
qed

lemma loop_z_raises:
  "type_error_state self \<Longrightarrow> zs \<noteq> [] \<Longrightarrow> loop_z lib self polygon i xp zs n = Inl TypeError"
  by (cases zs) (auto simp: cell_index_raises)

lemma loop_x_no_cells: "loop_x lib self polygon xs [] n = Inr n"
  by (induction xs arbitrary: n) auto

lemma loop_x_raises:
  "type_error_state self \<Longrightarrow> zs \<noteq> [] \<Longrightarrow> xs \<noteq> [] \<Longrightarrow>
     loop_x lib self polygon xs zs n = Inl TypeError"
  by (cases xs) (auto simp: loop_z_raises)

lemma rasterize_raises:
  assumes "type_error_state self"
  shows "rasterize lib polygon self =
           (if 2 \<le> length (grid_x self) \<and> 2 \<le> length (grid_z self) then Inl TypeError
            else Inr (replicate (length (grid_z self) - 1)
                        (replicate (length (grid_x self) - 1) (Some 0))))"
proof -
  define xs where "xs = enumerate 0 (zip (butlast (grid_x self)) (drop 1 (grid_x self)))"
  define zs where "zs = enumerate 0 (zip (butlast (grid_z self)) (drop 1 (grid_z self)))"
  define n where "n = replicate (length (grid_z self) - 1)
                        (replicate (length (grid_x self) - 1) (Some 0 :: pyfloat))"
  have r: "rasterize lib polygon self = loop_x lib self polygon xs zs n"
    unfolding rasterize_def Let_def xs_def zs_def n_def by (rule refl)
  have lx: "length xs = length (grid_x self) - 1" by (simp add: xs_def)
  have lz: "length zs = length (grid_z self) - 1" by (simp add: zs_def)
  show ?thesis
  proof (cases "2 \<le> length (grid_x self) \<and> 2 \<le> length (grid_z self)")
    case True
    then have "xs \<noteq> []" "zs \<noteq> []" using lx lz by auto
    then have "loop_x lib self polygon xs zs n = Inl TypeError"
      using assms by (simp add: loop_x_raises)
    then show ?thesis using True r by (simp add: n_def)
  next
    case False
    then have "xs = [] \<or> zs = []" using lx lz by auto
    then have "loop_x lib self polygon xs zs n = Inr n"
      by (auto simp: loop_x_no_cells)
    then show ?thesis using False r by (simp add: n_def)
  qed
qed

subsection \<open>The index map and the design\<close>

lemma cell_index_cong:
  "subpixel a = subpixel b \<Longrightarrow> core_index (params a) = core_index (params b) \<Longrightarrow>
   cladding_index (params a) = cladding_index (params b) \<Longrightarrow>
     cell_index lib a polygon xp zp = cell_index lib b polygon xp zp"
  by (simp add: cell_index_def split: option.splits)

lemma loop_z_cong:
  "subpixel a = subpixel b \<Longrightarrow> core_index (params a) = core_index (params b) \<Longrightarrow>
   cladding_index (params a) = cladding_index (params b) \<Longrightarrow>
     loop_z lib a polygon i xp zs n = loop_z lib b polygon i xp zs n"
proof (induction zs arbitrary: n)
  case Nil
  then show ?case by simp
next
  case (Cons jz zs)
  obtain j zp where jz: "jz = (j, zp)" by (cases jz)
  show ?case
    using Cons cell_index_cong[of a b lib polygon xp zp]
    by (simp add: jz split: sum.splits)
qed

lemma loop_x_cong:
  "subpixel a = subpixel b \<Longrightarrow> core_index (params a) = core_index (params b) \<Longrightarrow>
   cladding_index (params a) = cladding_index (params b) \<Longrightarrow>
     loop_x lib a polygon xs zs n = loop_x lib b polygon xs zs n"
proof (induction xs arbitrary: n)
  case Nil
  then show ?case by simp
next
  case (Cons ix xs)
  obtain i xp where ix: "ix = (i, xp)" by (cases ix)
  show ?case
    using Cons loop_z_cong[of a b lib polygon i xp zs n]
    by (simp add: ix split: sum.splits)
qed

lemma get_n_cong:
  assumes "same_raster_inputs a b"
  shows "get_n lib a = get_n lib b"
proof -
  have p: "get_n_polygon a = get_n_polygon b"
    using assms by (simp add: same_raster_inputs_def get_n_polygon_def)
  have g: "grid_x a = grid_x b" "grid_z a = grid_z b"
    using assms by (simp_all add: same_raster_inputs_def)
  have "rasterize lib (get_n_polygon b) a = rasterize lib (get_n_polygon b) b"
    unfolding rasterize_def Let_def g
    using assms by (intro loop_x_cong) (simp_all add: same_raster_inputs_def)
  then show ?thesis
    by (simp add: get_n_def Let_def p)
qed

lemma same_raster_inputs_design: "same_raster_inputs (self\<lparr>design := d\<rparr>) self"
  by (simp add: same_raster_inputs_def)

lemma get_n_design: "get_n lib (self\<lparr>design := d\<rparr>) = get_n lib self"
  by (rule get_n_cong[OF same_raster_inputs_design])

lemma set_design_result: "snd (set_design lib d self) = get_n lib self"
  by (simp add: set_design_def set_layers_def get_n_design)

lemma set_design_state: "fst (set_design lib d self) = self\<lparr>design := d\<rparr>"
  by (simp add: set_design_def set_layers_def)

subsection \<open>The example object\<close>

lemmas eval_defs = get_n_def get_n_polygon_def rasterize_def cell_index_def example_rect_def
  example_params_def default_params_def box_shapely_def overlapping_area_def total_area_def
  pixel_poly_def set_item_def enumerate_eq_zip Let_def

lemma example_get_n:
  "get_n box_shapely example_rect =
     Inr [[Some (24 / 10), Some (24 / 10)], [Some (24 / 10), Some (24 / 10)]]"
  by (simp add: eval_defs)

lemma example_rect_init:
  "DynamicRect2D_init box_shapely example_params 2 2 1 True True 3 = Inr example_rect"
  by (simp add: DynamicRect2D_init_def linspace_def set_design_def set_layers_def flatten_pairs_def
       eval_defs upt_rec)

subsection \<open>The constructor and the stored design\<close>

lemma init_fields:
  assumes "DynamicRect2D_init lib p w l k symm subpx mz = Inr self"
  shows "params self = p" "symmetry self = symm" "subpixel self = subpx"
    "width self = w" "length_z self = l"
    "static_vertices_left self = [(Some (- w / 2), Some 0), (Some (w / 2), Some 0)]"
    "static_vertices_right self = [(Some (w / 2), Some l), (Some (- w / 2), Some l)]"
    "layers self = None"
    "linspace 0 l mz = Inr (grid_z self)"
    "params_x p = Some x \<Longrightarrow> grid_x self = x"
    "params_x p = None \<Longrightarrow>
       linspace (- cladding_width p / 2) (cladding_width p / 2) (mesh p) = Inr (grid_x self)"
  using assms
  by (auto simp: DynamicRect2D_init_def Let_def set_design_def set_layers_def
           split: sum.splits option.splits)


lemma set_designs_state: "set_designs lib ds self = self\<lparr>design := last (design self # ds)\<rparr>"
proof (induction ds arbitrary: self)
  case Nil
  then show ?case by (simp add: set_designs_def)
next
  case (Cons d ds)
  have "set_designs lib (d # ds) self = set_designs lib ds (self\<lparr>design := d\<rparr>)"
    by (simp add: set_designs_def set_design_state)
  then show ?case by (simp add: Cons.IH)
qed

lemma neg_neg: "neg (neg v) = v"
  by (cases v) (simp_all add: neg_def)

lemma get_n_cases:
  "get_n lib self =
     (if type_error_state self \<and> 2 \<le> length (grid_x self) \<and> 2 \<le> length (grid_z self)
      then Inl TypeError
      else Inr (if type_error_state self
                then replicate (length (grid_z self) - 1)
                       (replicate (length (grid_x self) - 1) (Some 0))
                else raster_map lib (get_n_polygon self) self))"
  by (cases "type_error_state self") (simp_all add: get_n_def rasterize_ok rasterize_raises)

subsection \<open>Cell values and the shape of the map\<close>























subsection \<open>Channels and solver factories\<close>

lemma upto_0_2: "[0..3 - 1] = [0, 1, 2 :: int]"
  by (simp add: upto_rec1)

lemma np_where_length:
  "np_where cond v ys = Inr r \<Longrightarrow> length r = (if length cond = 1 then length ys else length cond)"
  by (auto simp: np_where_def split: if_splits)

lemma np_where_nth:
  "np_where cond v ys = Inr r \<Longrightarrow> i < length r \<Longrightarrow>
     r ! i = (if cond ! (if length cond = 1 then 0 else i) then v
              else ys ! (if length ys = 1 then 0 else i))"
  by (auto simp: np_where_def split: if_splits)

lemma np_where_same_length:
  "length cond = length ys \<Longrightarrow>
     np_where cond v ys = Inr (map (\<lambda>(c, y). if c then v else y) (zip cond ys))"
  by (simp add: np_where_def)

lemma float_of_int_small: "\<bar>n\<bar> \<le> 2 ^ 53 \<Longrightarrow> float_of_int ar n = Inr (real_of_int n)"
  by (simp add: float_of_int_def)

lemma channels_loop_step:
  assumes x: "params_x p = Some x" and out: "out \<notin> set ex" and small: "\<bar>out\<bar> \<le> 2 ^ 53"
  shows "channels_loop ar p w gap
           (fmul ar (fmul ar (- 0.5) (real_of_int (nc - 1))) (fadd ar gap w)) ex (out # rest) n =
           (case np_where (map (in_channel ar nc gap w out) x) (core_index p) n of
              Inl e \<Rightarrow> Inl e
            | Inr n' \<Rightarrow>
                channels_loop ar p w gap
                  (fmul ar (fmul ar (- 0.5) (real_of_int (nc - 1))) (fadd ar gap w)) ex rest n')"
proof -
  have lam: "(\<lambda>xi. fsub ar (fadd ar (fmul ar (fmul ar (- 0.5) (real_of_int (nc - 1))) (fadd ar gap w))
                                (fmul ar (real_of_int out) (fadd ar gap w))) (fmul ar 0.5 w) \<le> xi \<and>
             xi \<le> fadd ar (fadd ar (fmul ar (fmul ar (- 0.5) (real_of_int (nc - 1))) (fadd ar gap w))
                                (fmul ar (real_of_int out) (fadd ar gap w))) (fmul ar 0.5 w))
           = in_channel ar nc gap w out"
    by (rule ext) (simp add: in_channel_def channel_edges_def Let_def)
  show ?thesis
    by (simp only: channels_loop.simps Let_def lam x out if_True option.case not_False_eq_True
          float_of_int_small[OF small] sum.case)
qed

lemma channels_loop_skip:
  "out \<in> set ex \<Longrightarrow>
     channels_loop ar p w gap sc ex (out # rest) n = channels_loop ar p w gap sc ex rest n"
  by simp

lemma channel_profile_3_1:
  assumes "params_x p = Some x" and "cladding_index p = Some cladding" and "0 \<le> mesh p"
  shows "channel_profile ar p w gap 3 [1] =
           (case np_where (map (in_channel ar 3 gap w 0) x) (core_index p)
                   (replicate (nat (mesh p)) (Some cladding)) of
              Inl e \<Rightarrow> Inl e
            | Inr n' \<Rightarrow> np_where (map (in_channel ar 3 gap w 2) x) (core_index p) n')"
proof -
  have s0: "(0::int) \<notin> set [1]" and s1: "(1::int) \<in> set [1]" and s2: "(2::int) \<notin> set [1]"
    by simp_all
  have b0: "\<bar>0::int\<bar> \<le> 2 ^ 53" and b2: "\<bar>2::int\<bar> \<le> 2 ^ 53" and b3: "\<bar>3 - 1::int\<bar> \<le> 2 ^ 53"
    by simp_all
  have m: "\<not> mesh p < 0" using assms(3) by simp
  show ?thesis
    unfolding channel_profile_def upto_0_2 Let_def
    by (simp only: m if_False assms(2) option.case sum.case float_of_int_small[OF b3]
          channels_loop_step[OF assms(1) s0 b0] channels_loop_step[OF assms(1) s2 b2]
          channels_loop_skip[OF s1] channels_loop.simps(1))
       (simp split: sum.splits)
qed

lemma profile_nth:
  assumes x: "params_x p = Some x" and clad: "cladding_index p = Some cladding"
    and prof: "channel_profile ar p w gap 3 [1] = Inr profile" and i: "i < length profile"
  shows "profile ! i =
           (if in_channel ar 3 gap w 0 (x ! (if length x = 1 then 0 else i)) \<or>
               in_channel ar 3 gap w 2 (x ! (if length x = 1 then 0 else i))
            then core_index p else Some cladding)"
proof -
  have m: "0 \<le> mesh p"
    using prof by (auto simp: channel_profile_def Let_def split: if_splits sum.splits)
  let ?c0 = "map (in_channel ar 3 gap w 0) x" and ?c2 = "map (in_channel ar 3 gap w 2) x"
  let ?n0 = "replicate (nat (mesh p)) (Some cladding)"
  obtain n1 where n1: "np_where ?c0 (core_index p) ?n0 = Inr n1"
    and n2: "np_where ?c2 (core_index p) n1 = Inr profile"
    using prof unfolding channel_profile_3_1[OF x clad m] by (auto split: sum.splits)
  have l1: "length n1 = (if length x = 1 then nat (mesh p) else length x)"
    using np_where_length[OF n1] by simp
  have l2: "length profile = (if length x = 1 then length n1 else length x)"
    using np_where_length[OF n2] by simp
  have i1: "i < length n1" using i l1 l2 by (simp split: if_splits)
  let ?k = "if length x = 1 then 0 else i"
  have kx: "?k < length x" using i l2 by (simp split: if_splits)
  have j1: "(if length n1 = 1 then 0 else i) = i" using i1 by (simp split: if_splits)
  have j0: "(if length ?n0 = 1 then 0 else i) < length ?n0"
    using i1 l1 n1 by (auto simp: np_where_def split: if_splits)
  have a: "profile ! i = (if ?c2 ! ?k then core_index p else n1 ! i)"
    using np_where_nth[OF n2 i] j1 by simp
  have b: "n1 ! i = (if ?c0 ! ?k then core_index p else Some cladding)"
    using np_where_nth[OF n1 i1] j0 by simp
  show ?thesis
    using a b kx by auto
qed

lemma exact_edges:
  "channel_edges exact_arith nc gap w k =
     (channel_center nc gap w k - w / 2, channel_center nc gap w k + w / 2)"
  by (simp add: channel_edges_def exact_arith_def channel_center_def Let_def)

lemma exact_disjoint:
  "0 < gap \<Longrightarrow>
     snd (channel_edges exact_arith 3 gap w 0) < fst (channel_edges exact_arith 3 gap w 1) \<and>
     snd (channel_edges exact_arith 3 gap w 1) < fst (channel_edges exact_arith 3 gap w 2)"
  by (simp add: exact_edges channel_center_def)

section \<open>The claims\<close>

text \<open>
  C1. \<^verbatim>\<open>get_n\<close> is claimed to rasterize the polygon it assembles from the static and
  the design vertices. On the example object, which the constructor returns, the
  assembled loop is a hexagon that reaches to \<open>x = 2\<close> and \<open>x = - 2\<close>; the shape that is
  rasterized is the buffer of radius 1 around \<open>(0, 1)\<close>, and the map that \<^verbatim>\<open>get_n\<close>
  returns is not the one that the same loops compute for the hexagon.
\<close>

theorem get_n_rasterizes_buffer_not_vertices:
  "DynamicRect2D_init box_shapely example_params 2 2 1 True True 3 = Inr example_rect \<and>
   get_n_vertices example_rect =
     [(Some (- 1), Some 0), (Some 1, Some 0), (Some 2, Some 1),
      (Some 1, Some 2), (Some (- 1), Some 2), (Some (- 2), Some 1)] \<and>
   get_n_polygon example_rect = PointBuffer 0 1 1 \<and>
   get_n box_shapely example_rect =
     Inr [[Some (24 / 10), Some (24 / 10)], [Some (24 / 10), Some (24 / 10)]] \<and>
   rasterize box_shapely (Polygon (get_n_vertices example_rect)) example_rect =
     Inr [[Some (34 / 10), Some (34 / 10)], [Some (34 / 10), Some (34 / 10)]]"
proof -
  have v: "get_n_vertices example_rect =
     [(Some (- 1), Some 0), (Some 1, Some 0), (Some 2, Some 1),
      (Some 1, Some 2), (Some (- 1), Some 2), (Some (- 2), Some 1)]"
    by (simp add: get_n_vertices_def design_pairs_def neg_def example_rect_def)
  have p: "get_n_polygon example_rect = PointBuffer 0 1 1"
    by (simp add: get_n_polygon_def example_rect_def)
  have r: "rasterize box_shapely (Polygon (get_n_vertices example_rect)) example_rect =
     Inr [[Some (34 / 10), Some (34 / 10)], [Some (34 / 10), Some (34 / 10)]]"
    unfolding v by (simp add: eval_defs)
  show ?thesis
    using v p r example_get_n example_rect_init by (simp only: simp_thms)
qed






text \<open>
  C4. \<^verbatim>\<open>set_design(d)\<close> is claimed to store \<open>d\<close>, rasterize again, rebuild the
  object's layers and return the new index map. The code stores \<open>d\<close>, so that
  \<^verbatim>\<open>get_design()\<close> returns it, and returns the map of the object with the new design;
  but \<^verbatim>\<open>set_layers\<close>, whose docstring says that it creates the layers, only calls
  \<^verbatim>\<open>get_n\<close>. The layers are as they were before the call, and an object that the
  constructor returned has none, before the call and after it.
\<close>

theorem set_design_leaves_layers_unset:
  "get_design (fst (set_design lib d self)) = d \<and>
   snd (set_design lib d self) = get_n lib (fst (set_design lib d self)) \<and>
   layers (fst (set_design lib d self)) = layers self \<and>
   (case DynamicRect2D_init lib p w l k symm subpx mz of
      Inl e \<Rightarrow> True
    | Inr made \<Rightarrow> layers made = None \<and> layers (fst (set_design lib d made)) = None) \<and>
   layers (fst (set_design box_shapely [Some 3, Some 1] example_rect)) = None"
proof -
  have "layers made = None \<and> layers (fst (set_design lib d made)) = None"
    if "DynamicRect2D_init lib p w l k symm subpx mz = Inr made" for made
    using init_fields(8)[OF that] by (simp add: set_design_state)
  then have "case DynamicRect2D_init lib p w l k symm subpx mz of
      Inl e \<Rightarrow> True
    | Inr made \<Rightarrow> layers made = None \<and> layers (fst (set_design lib d made)) = None"
    by (simp split: sum.splits)
  moreover have "layers (fst (set_design box_shapely [Some 3, Some 1] example_rect)) = None"
    by (simp add: set_design_state example_rect_def)
  ultimately show ?thesis
    by (simp add: set_design_state get_design_def set_design_result get_n_design)
qed

text \<open>
  C5, as stated, fails: with both indices unset, and the constructor of the solver as
  the specification describes it, each factory returns a handle. Its indices are unset.
\<close>

theorem factories_allocate_without_indices:
  "core_index default_params = None \<and> cladding_index default_params = None \<and>
   get_solver_rect MSEMpy_alloc default_params (5 / 10000000) (22 / 100000000) 1 =
     Inr (MSEMpy \<lparr>arg_wavelength = 155 / 100000000, arg_width = Some (5 / 10000000),
                  arg_thickness = Some (22 / 100000000), arg_num_modes = Some 1,
                  arg_cladding_width = 25 / 10000000, arg_cladding_thickness = 25 / 10000000,
                  arg_core_index = None, arg_cladding_index = None, arg_x = None, arg_y = None,
                  arg_mesh = 128, arg_accuracy = 1 / 100000000, arg_boundary = ''0000'',
                  arg_n = None, arg_PML = False\<rparr>) \<and>
   get_solver_index MSEMpy_alloc default_params None None None =
     Inr (MSEMpy \<lparr>arg_wavelength = 155 / 100000000, arg_width = None,
                  arg_thickness = None, arg_num_modes = None,
                  arg_cladding_width = 25 / 10000000, arg_cladding_thickness = 25 / 10000000,
                  arg_core_index = None, arg_cladding_index = None, arg_x = None, arg_y = None,
                  arg_mesh = 128, arg_accuracy = 1 / 100000000, arg_boundary = ''0000'',
                  arg_n = None, arg_PML = False\<rparr>)"
  by (simp add: get_solver_rect_def get_solver_index_def MSEMpy_alloc_def default_params_def)

text \<open>
  C5, amended. The two factories check nothing: whatever the constructor of the solver
  is, each factory returns what the constructor returns for arguments that carry the
  core and cladding index of the parameters as they are, set or not. With a constructor
  that only allocates the handle, each factory returns a handle with these indices.
\<close>

theorem factories_forward_indices:
  "(\<exists>a. get_solver_rect ctor p w t k = ctor a \<and>
        arg_core_index a = core_index p \<and> arg_cladding_index a = cladding_index p) \<and>
   (\<exists>a. get_solver_index ctor p t' k' n = ctor a \<and>
        arg_core_index a = core_index p \<and> arg_cladding_index a = cladding_index p) \<and>
   (\<exists>a. get_solver_rect MSEMpy_alloc p w t k = Inr (MSEMpy a) \<and>
        arg_core_index a = core_index p \<and> arg_cladding_index a = cladding_index p) \<and>
   (\<exists>a. get_solver_index MSEMpy_alloc p t' k' n = Inr (MSEMpy a) \<and>
        arg_core_index a = core_index p \<and> arg_cladding_index a = cladding_index p)"
  unfolding get_solver_rect_def get_solver_index_def MSEMpy_alloc_def
  by (intro conjI; rule exI; rule conjI[OF refl]; simp)

text \<open>
  C6, as stated, fails: \<^verbatim>\<open>set_design\<close> with a design of odd length, and with a design
  of two numbers on an object without symmetry, stores the design and returns the index
  map.
\<close>

theorem set_design_accepts_malformed_design:
  "set_design box_shapely [Some 1] example_rect =
     (example_rect\<lparr>design := [Some 1]\<rparr>,
      Inr [[Some (24 / 10), Some (24 / 10)], [Some (24 / 10), Some (24 / 10)]]) \<and>
   set_design box_shapely [Some 1, Some 2] (example_rect\<lparr>symmetry := False\<rparr>) =
     (example_rect\<lparr>symmetry := False, design := [Some 1, Some 2]\<rparr>,
      Inr [[Some (24 / 10), Some (24 / 10)], [Some (24 / 10), Some (24 / 10)]])"
proof -
  have "get_n box_shapely (example_rect\<lparr>symmetry := False\<rparr>) = get_n box_shapely example_rect"
    by (rule get_n_cong) (simp add: same_raster_inputs_def)
  then show ?thesis
    using set_design_state[of box_shapely] set_design_result[of box_shapely]
    by (simp add: prod_eq_iff example_get_n)
qed

text \<open>
  C6, amended. \<^verbatim>\<open>set_design\<close> checks nothing about the design: for every design
  vector it stores the vector and rasterizes. What it returns does not depend on the
  vector: TypeError when subpixel smoothing is on, a material index is unset and the
  grid has a cell, and the index map of the buffer otherwise.
\<close>

theorem set_design_no_validation:
  "fst (set_design lib d self) = self\<lparr>design := d\<rparr> \<and>
   snd (set_design lib d self) = get_n lib (self\<lparr>design := d\<rparr>) \<and>
   snd (set_design lib d self) =
     (if type_error_state self \<and> 2 \<le> length (grid_x self) \<and> 2 \<le> length (grid_z self)
      then Inl TypeError
      else Inr (if type_error_state self
                then replicate (length (grid_z self) - 1)
                       (replicate (length (grid_x self) - 1) (Some 0))
                else raster_map lib (get_n_polygon self) self))"
  using get_n_cases[of lib self]
  by (simp add: set_design_state set_design_result get_n_design)

text \<open>
  C7. For every DynamicRect2D built with symmetry on, and whatever designs were stored
  since, the assembled vertex loop is the static left vertices, the top vertices of the
  design, the static right vertices, and the top vertices again in reverse order with
  the transverse coordinate negated; every vertex \<open>(x, z)\<close> of the loop has its mirror
  image \<open>(- x, z)\<close> in the loop.
\<close>

theorem symmetric_vertex_loop:
  assumes "DynamicRect2D_init lib p w l k True subpx mz = Inr self0"
  shows "get_n_vertices (set_designs lib ds self0) =
           static_vertices_left self0 @ design_pairs (design (set_designs lib ds self0)) @
           static_vertices_right self0 @
           map (\<lambda>(x, z). (neg x, z)) (rev (design_pairs (design (set_designs lib ds self0)))) \<and>
         (\<forall>(x, z) \<in> set (get_n_vertices (set_designs lib ds self0)).
            (neg x, z) \<in> set (get_n_vertices (set_designs lib ds self0)))"
proof -
  let ?s = "set_designs lib ds self0"
  let ?top = "design_pairs (design ?s)"
  let ?m = "\<lambda>(x, z). (neg x, z)"
  have sym: "symmetry ?s" and
    left: "static_vertices_left ?s = [(Some (- w / 2), Some 0), (Some (w / 2), Some 0)]" and
    right: "static_vertices_right ?s = [(Some (w / 2), Some l), (Some (- w / 2), Some l)]"
    using init_fields[OF assms] by (simp_all add: set_designs_state)
  have l0: "static_vertices_left self0 = static_vertices_left ?s"
    and r0: "static_vertices_right self0 = static_vertices_right ?s"
    by (simp_all add: set_designs_state)
  have v: "get_n_vertices ?s =
      static_vertices_left ?s @ ?top @ static_vertices_right ?s @ map ?m (rev ?top)"
    using sym by (simp add: get_n_vertices_def Let_def)
  have mm: "?m (?m q) = q" for q :: "pyfloat \<times> pyfloat"
    by (cases q) (simp add: neg_neg)
  have closed: "?m q \<in> set (get_n_vertices ?s)" if q: "q \<in> set (get_n_vertices ?s)" for q
  proof -
    from q have "q \<in> set (static_vertices_left ?s) \<union> set ?top \<union>
        set (static_vertices_right ?s) \<union> ?m ` set ?top"
      unfolding v by (simp only: set_append set_map set_rev Un_assoc)
    then consider "q \<in> set (static_vertices_left ?s)" | "q \<in> set ?top"
      | "q \<in> set (static_vertices_right ?s)" | "q \<in> ?m ` set ?top"
      by blast
    then show ?thesis
    proof cases
      case 1
      then have "?m q \<in> set (static_vertices_left ?s)"
        unfolding left by (auto simp: neg_def)
      then show ?thesis unfolding v by simp
    next
      case 2
      then have "?m q \<in> ?m ` set ?top" by (rule imageI)
      then show ?thesis unfolding v by simp
    next
      case 3
      then have "?m q \<in> set (static_vertices_right ?s)"
        unfolding right by (auto simp: neg_def)
      then show ?thesis unfolding v by simp
    next
      case 4
      then obtain t where t: "t \<in> set ?top" "q = ?m t" by blast
      then have "?m q = t" by (simp only: mm)
      then show ?thesis using t unfolding v by simp
    qed
  qed
  have "\<forall>(x, z) \<in> set (get_n_vertices ?s). (neg x, z) \<in> set (get_n_vertices ?s)"
    using closed by fastforce
  then show ?thesis
    using v l0 r0 by simp
qed

theorem symmetric_vertex_loop_witness:
  "DynamicRect2D_init box_shapely example_params 2 2 1 True True 3 = Inr example_rect \<and>
   get_n_vertices (set_designs box_shapely [[Some 3, Some (1 / 2), Some 7]] example_rect) =
     [(Some (- 1), Some 0), (Some 1, Some 0), (Some 3, Some (1 / 2)),
      (Some 1, Some 2), (Some (- 1), Some 2), (Some (- 3), Some (1 / 2))]"
  using symmetric_vertex_loop[OF example_rect_init, of "[[Some 3, Some (1 / 2), Some 7]]"]
  by (simp add: example_rect_init set_designs_state design_pairs_def neg_def example_rect_def)

text \<open>
  C8, as stated, fails when the channels touch. With width 1 and gap 0 every operation
  on the edges is exact in doubles; the sample \<open>x = - 1/2\<close> lies in the interval of the
  excluded channel 1, of which it is the left end, and the profile has the core index
  there: it is also the right end of channel 0.
\<close>

theorem channel_exclusion_fails_without_gap:
  "params_x touching_params = Some [- 1, - 1 / 2, 0, 1 / 2, 1] \<and>
   channel_edges exact_arith 3 0 1 1 = (- 1 / 2, 1 / 2) \<and>
   in_channel exact_arith 3 0 1 1 (- 1 / 2) \<and>
   channel_profile exact_arith touching_params 1 0 3 [1] =
     Inr [Some (34 / 10), Some (34 / 10), Some (14 / 10), Some (34 / 10), Some (34 / 10)]"
proof -
  have x: "params_x touching_params = Some [- 1, - 1 / 2, 0, 1 / 2, 1]"
    and c: "cladding_index touching_params = Some (14 / 10)" and m: "0 \<le> mesh touching_params"
    by (simp_all add: touching_params_def)
  have "channel_profile exact_arith touching_params 1 0 3 [1] =
     Inr [Some (34 / 10), Some (34 / 10), Some (14 / 10), Some (34 / 10), Some (34 / 10)]"
    unfolding channel_profile_3_1[OF x c m]
    by (simp add: np_where_def in_channel_def exact_edges channel_center_def touching_params_def
          eval_nat_numeral)
  moreover have "in_channel exact_arith 3 0 1 1 (- 1 / 2)"
    by (simp add: in_channel_def exact_edges channel_center_def)
  moreover have "channel_edges exact_arith 3 0 1 1 = (- 1 / 2, 1 / 2)"
    by (simp add: exact_edges channel_center_def)
  ultimately show ?thesis using x by blast
qed

text \<open>
  C8, amended. With params whose \<open>x\<close>, core index and cladding index are set, three
  channels and channel 1 excluded, take for the interval of channel \<open>k\<close> the two ends
  that the code computes in doubles, \<open>center - 0.5 * width\<close> and
  \<open>center + 0.5 * width\<close> with
  \<open>center = - 0.5 * (num_channels - 1) * (gap + width) + k * (gap + width)\<close>, and let
  the computed interval of channel 1 lie strictly between those of channels 0 and 2.
  Then, whatever the rounding, the profile has the cladding index at the samples inside
  the interval of channel 1 and the core index at the samples inside the intervals of
  channels 0 and 2. The profile exists when \<open>x\<close> has \<open>mesh\<close> points; entry \<open>i\<close>
  belongs to sample \<open>i\<close>, and to the only sample when numpy broadcasts an \<open>x\<close> of one
  point. Without rounding the ends are \<open>center - width / 2\<close> and
  \<open>center + width / 2\<close>, and the three intervals are so ordered when the gap is
  positive.
\<close>

theorem channel_exclusion:
  assumes x: "params_x p = Some x"
    and core: "core_index p = Some core" and clad: "cladding_index p = Some cladding"
    and d01: "snd (channel_edges ar 3 gap w 0) < fst (channel_edges ar 3 gap w 1)"
    and d12: "snd (channel_edges ar 3 gap w 1) < fst (channel_edges ar 3 gap w 2)"
  shows "(mesh p = int (length x) \<longrightarrow>
            (\<exists>profile. channel_profile ar p w gap 3 [1] = Inr profile \<and>
                       length profile = length x)) \<and>
         (\<forall>profile i. channel_profile ar p w gap 3 [1] = Inr profile \<longrightarrow> i < length profile \<longrightarrow>
            (let xi = x ! (if length x = 1 then 0 else i)
             in (in_channel ar 3 gap w 1 xi \<longrightarrow> profile ! i = Some cladding) \<and>
                (in_channel ar 3 gap w 0 xi \<or> in_channel ar 3 gap w 2 xi \<longrightarrow>
                   profile ! i = Some core))) \<and>
         (\<forall>k. channel_edges exact_arith 3 gap w k =
                (channel_center 3 gap w k - w / 2, channel_center 3 gap w k + w / 2)) \<and>
         (0 < gap \<longrightarrow>
            snd (channel_edges exact_arith 3 gap w 0) < fst (channel_edges exact_arith 3 gap w 1) \<and>
            snd (channel_edges exact_arith 3 gap w 1) < fst (channel_edges exact_arith 3 gap w 2))"
proof (intro conjI allI impI)
  assume m: "mesh p = int (length x)"
  then have m0: "0 \<le> mesh p" by simp
  show "\<exists>profile. channel_profile ar p w gap 3 [1] = Inr profile \<and> length profile = length x"
    unfolding channel_profile_3_1[OF x clad m0]
    by (simp add: np_where_same_length m)
next
  fix profile i
  assume prof: "channel_profile ar p w gap 3 [1] = Inr profile" and i: "i < length profile"
  have dis: "\<not> in_channel ar 3 gap w 0 xi \<and> \<not> in_channel ar 3 gap w 2 xi"
    if "in_channel ar 3 gap w 1 xi" for xi
    using that d01 d12 by (auto simp: in_channel_def)
  show "let xi = x ! (if length x = 1 then 0 else i)
        in (in_channel ar 3 gap w 1 xi \<longrightarrow> profile ! i = Some cladding) \<and>
           (in_channel ar 3 gap w 0 xi \<or> in_channel ar 3 gap w 2 xi \<longrightarrow> profile ! i = Some core)"
    using profile_nth[OF x clad prof i] dis core
    by (auto simp: Let_def)
next
  fix k show "channel_edges exact_arith 3 gap w k =
                (channel_center 3 gap w k - w / 2, channel_center 3 gap w k + w / 2)"
    by (rule exact_edges)
next
  assume "0 < gap"
  then show "snd (channel_edges exact_arith 3 gap w 0) < fst (channel_edges exact_arith 3 gap w 1)"
    and "snd (channel_edges exact_arith 3 gap w 1) < fst (channel_edges exact_arith 3 gap w 2)"
    using exact_disjoint by blast+
qed

theorem channel_exclusion_witness:
  "params_x spaced_params = Some [- 3 / 2, 0, 3 / 2] \<and>
   snd (channel_edges exact_arith 3 (1 / 2) 1 0) < fst (channel_edges exact_arith 3 (1 / 2) 1 1) \<and>
   snd (channel_edges exact_arith 3 (1 / 2) 1 1) < fst (channel_edges exact_arith 3 (1 / 2) 1 2) \<and>
   (\<exists>profile. channel_profile exact_arith spaced_params 1 (1 / 2) 3 [1] = Inr profile \<and>
      length profile = 3 \<and> profile ! 0 = Some (34 / 10) \<and> profile ! 1 = Some (14 / 10) \<and>
      profile ! 2 = Some (34 / 10))"
proof -
  have x: "params_x spaced_params = Some [- 3 / 2, 0, 3 / 2]"
    and co: "core_index spaced_params = Some (34 / 10)"
    and cl: "cladding_index spaced_params = Some (14 / 10)"
    and m: "mesh spaced_params = int (length [- 3 / 2, 0, 3 / 2 :: real])"
    by (simp_all add: spaced_params_def)
  have d: "snd (channel_edges exact_arith 3 (1 / 2) 1 0) < fst (channel_edges exact_arith 3 (1 / 2) 1 1)"
    "snd (channel_edges exact_arith 3 (1 / 2) 1 1) < fst (channel_edges exact_arith 3 (1 / 2) 1 2)"
    by (simp_all add: exact_edges channel_center_def)
  note th = channel_exclusion[OF x co cl d]
  from th m obtain profile where
    p: "channel_profile exact_arith spaced_params 1 (1 / 2) 3 [1] = Inr profile"
    and l: "length profile = 3"
    by auto
  have i: "0 < length profile" "1 < length profile" "2 < length profile"
    using l by simp_all
  have c: "in_channel exact_arith 3 (1 / 2) 1 0 (- 3 / 2)" "in_channel exact_arith 3 (1 / 2) 1 1 0"
    "in_channel exact_arith 3 (1 / 2) 1 2 (3 / 2)"
    by (simp_all add: in_channel_def exact_edges channel_center_def)
  from th p i(1) c(1) have "profile ! 0 = Some (34 / 10)"
    by (auto simp: Let_def)
  moreover from th p i(2) c(2) have "profile ! 1 = Some (14 / 10)"
    by (auto simp: Let_def)
  moreover from th p i(3) c(3) have "profile ! 2 = Some (34 / 10)"
    by (auto simp: Let_def)
  ultimately show ?thesis
    using d x p l by blast
qed

text \<open>
  C9. A geometry built from parameters without \<open>x\<close> is claimed to derive the grid from
  the cladding width and the mesh. \<^verbatim>\<open>DynamicRect2D\<close> does: the example object has the
  three points from \<open>- 2\<close> to \<open>2\<close>. \<^verbatim>\<open>WaveguideChannels\<close> does not: with the default
  two channels, none excluded, and both indices set, the comparison of the first
  channel's edge with \<^verbatim>\<open>params.x\<close> raises TypeError, whatever the arithmetic.
\<close>

theorem waveguide_channels_needs_x:
  "params_x (default_params\<lparr>core_index := Some core, cladding_index := Some cladding\<rparr>) = None \<and>
   channel_profile ar (default_params\<lparr>core_index := Some core, cladding_index := Some cladding\<rparr>)
     w gap 2 [] = Inl TypeError \<and>
   WaveguideChannels_init ar ctor
     (default_params\<lparr>core_index := Some core, cladding_index := Some cladding\<rparr>)
     w t len k gap 2 [] = Inl TypeError \<and>
   DynamicRect2D_init box_shapely example_params 2 2 1 True True 3 = Inr example_rect \<and>
   params_x example_params = None \<and> grid_x example_rect = [- 2, 0, 2]"
proof -
  have "channel_profile ar (default_params\<lparr>core_index := Some core, cladding_index := Some cladding\<rparr>)
     w gap 2 [] = Inl TypeError"
    by (simp add: channel_profile_def default_params_def upto_rec1 Let_def float_of_int_def)
  then show ?thesis
    by (simp add: WaveguideChannels_init_def example_rect_init)
       (simp add: default_params_def example_params_def example_rect_def)
qed

text \<open>
  C10. For a fixed DynamicRect2D object the index map that \<^verbatim>\<open>set_design\<close> returns, and
  that \<^verbatim>\<open>get_n\<close> returns afterwards, is the same for every design vector: the shape
  that is rasterized is always the buffer of radius \<open>width / 2\<close> around the point
  \<open>(0, length / 2)\<close>, and two objects that agree on width, length, the grids, the
  subpixel flag and the material indices have the same map, whatever their designs.
\<close>

theorem index_map_independent_of_design:
  "snd (set_design lib d1 self) = snd (set_design lib d2 self) \<and>
   get_n lib (fst (set_design lib d1 self)) = get_n lib (fst (set_design lib d2 self)) \<and>
   get_n lib (fst (set_design lib d1 self)) =
     rasterize lib (PointBuffer 0 (length_z self / 2) (width self / 2)) self \<and>
   (\<forall>other. same_raster_inputs self other \<longrightarrow> get_n lib self = get_n lib other)"
proof -
  have a: "get_n lib self = rasterize lib (PointBuffer 0 (length_z self / 2) (width self / 2)) self"
    by (simp add: get_n_def get_n_polygon_def)
  have b: "\<forall>other. same_raster_inputs self other \<longrightarrow> get_n lib self = get_n lib other"
    by (blast intro: get_n_cong)
  have c: "get_n lib (fst (set_design lib d1 self)) = get_n lib self"
          "get_n lib (fst (set_design lib d2 self)) = get_n lib self"
    by (simp_all add: set_design_state get_n_design)
  have d: "snd (set_design lib d1 self) = snd (set_design lib d2 self)"
    by (simp add: set_design_result)
  show ?thesis
    using a b c d by (simp only: simp_thms)
qed

theorem index_map_independent_of_design_witness:
  "same_raster_inputs example_rect
     (example_rect\<lparr>symmetry := False, design := [Some 5, Some 7, Some 1]\<rparr>) \<and>
   get_n box_shapely example_rect =
     get_n box_shapely (example_rect\<lparr>symmetry := False, design := [Some 5, Some 7, Some 1]\<rparr>) \<and>
   snd (set_design box_shapely [Some 5] example_rect) = snd (set_design box_shapely [] example_rect)"
proof -
  let ?other = "example_rect\<lparr>symmetry := False, design := [Some 5, Some 7, Some 1]\<rparr>"
  have s: "same_raster_inputs example_rect ?other"
    by (simp add: same_raster_inputs_def)
  from index_map_independent_of_design[of box_shapely "[Some 5]" example_rect "[]"]
  have "snd (set_design box_shapely [Some 5] example_rect) = snd (set_design box_shapely [] example_rect)"
    and "\<forall>other. same_raster_inputs example_rect other \<longrightarrow>
           get_n box_shapely example_rect = get_n box_shapely other"
    by blast+
  with s show ?thesis by blast
qed

end
